theory Spec2Isabelle
  imports Complex_Main "HOL-Library.AList"
begin

section \<open>Values of the configuration language\<close>

text \<open>
  The file \<^verbatim>\<open>scenesMlForecast.ts\<close> builds configuration objects only. Its numbers are
  ECMAScript numbers: a finite value, one of the two infinities, or NaN. A finite number is
  modelled by the real it denotes (the two zeros are one value, both are falsy); the literals
  of the file (\<^verbatim>\<open>0.95\<close>, \<^verbatim>\<open>0.99\<close>, \<^verbatim>\<open>0.90\<close>, \<^verbatim>\<open>0.80\<close>) are compared with 0 and 1 only,
  which their binary roundings do not change.
\<close>

datatype jsnumber = Num real | Infinity | NegInfinity | NaN

text \<open>ToBoolean on a number: \<^verbatim>\<open>0\<close>, \<^verbatim>\<open>-0\<close> and \<^verbatim>\<open>NaN\<close> are falsy, everything else is truthy.\<close>

fun truthy :: "jsnumber \<Rightarrow> bool" where
  "truthy (Num x) = (x \<noteq> 0)"
| "truthy Infinity = True"
| "truthy NegInfinity = True"
| "truthy NaN = False"

text \<open>
  \<^verbatim>\<open>a || d\<close> where \<^verbatim>\<open>a\<close> is a number or \<^verbatim>\<open>undefined\<close> (\<open>None\<close>): the left operand when it
  is truthy, the right one otherwise.
\<close>

fun or_default :: "jsnumber option \<Rightarrow> jsnumber \<Rightarrow> jsnumber" where
  "or_default None d = d"
| "or_default (Some a) d = (if truthy a then a else d)"

text \<open>The spec's invariant on a confidence level: strictly between 0 and 1.\<close>

fun confidenceLevel_valid :: "jsnumber \<Rightarrow> bool" where
  "confidenceLevel_valid (Num x) = (0 < x \<and> x < 1)"
| "confidenceLevel_valid Infinity = False"
| "confidenceLevel_valid NegInfinity = False"
| "confidenceLevel_valid NaN = False"

section \<open>The baseliner control\<close>

text \<open>
  \<^verbatim>\<open>new SceneBaseliner({interval, discoverSeasonalities, pinned})\<close>: the state object handed to
  the constructor of the control. The file passes exactly these three fields.
\<close>

record SceneBaseliner =
  interval :: jsnumber
  discoverSeasonalities :: bool
  pinned :: bool

text \<open>
  The optional argument of \<^verbatim>\<open>MLForecastUtils.createAdvancedBaseliner\<close>; each field may be
  absent (\<open>None\<close>), and so may the whole argument.
\<close>

record AdvancedOptions =
  opt_interval :: "jsnumber option"
  customSeasonalities :: "jsnumber list option"
  anomalyThreshold :: "jsnumber option"

text \<open>\<^verbatim>\<open>options?.interval\<close>: \<^verbatim>\<open>undefined\<close> when \<^verbatim>\<open>options\<close> is.\<close>

fun optional_interval :: "AdvancedOptions option \<Rightarrow> jsnumber option" where
  "optional_interval None = None"
| "optional_interval (Some opts) = opt_interval opts"

definition createAdvancedBaseliner :: "AdvancedOptions option \<Rightarrow> SceneBaseliner" where
  "createAdvancedBaseliner options =
     \<lparr> interval = or_default (optional_interval options) (Num 0.95),
       discoverSeasonalities = True,
       pinned = False \<rparr>"

section \<open>Queries and panels\<close>

text \<open>
  The members of the enumerations of the schema package that the file refers to
  (\<^verbatim>\<open>LegendDisplayMode.Table\<close>, \<^verbatim>\<open>TooltipDisplayMode.Multi\<close>, \<^verbatim>\<open>SortOrder.Descending\<close>,
  \<^verbatim>\<open>GraphDrawStyle.Line\<close>, \<^verbatim>\<open>LineInterpolation.Smooth\<close>).
\<close>

datatype schema_enum =
    LegendDisplayMode_Table
  | TooltipDisplayMode_Multi
  | SortOrder_Descending
  | GraphDrawStyle_Line
  | LineInterpolation_Smooth

text \<open>Option values: strings, numbers, booleans, enumeration members, arrays, object literals.\<close>

datatype cfg =
    CfgStr string
  | CfgNum jsnumber
  | CfgBool bool
  | CfgEnum schema_enum
  | CfgArr "cfg list"
  | CfgObj "(string \<times> cfg) list"

record DataSourceRef =
  uid :: string

text \<open>One entry of \<^verbatim>\<open>queries\<close>; \<^verbatim>\<open>format\<close> and \<^verbatim>\<open>legendFormat\<close> are absent in some entries.\<close>

record DataQuery =
  refId :: string
  expr :: string
  query_interval :: string
  format :: "string option"
  legendFormat :: "string option"

record SceneQueryRunner =
  datasource :: DataSourceRef
  queries :: "DataQuery list"

text \<open>A colour override of the fields with a given name.\<close>

record FieldOverride =
  matchFieldsWithName :: string
  overrideColor :: cfg

text \<open>
  The state of the panel builder returned by \<^verbatim>\<open>PanelBuilders.timeseries()\<close>, which
  \<^verbatim>\<open>build()\<close> turns into the panel: the fields that the setters called in the file write.
  Options and custom field configuration are objects, kept as association lists.
\<close>

record VizPanel =
  pluginId :: string
  title :: string
  data :: "SceneQueryRunner option"
  headerActions :: "SceneBaseliner list"
  options :: "(string \<times> cfg) list"
  customFieldConfig :: "(string \<times> cfg) list"
  fieldUnit :: "string option"
  overrides :: "FieldOverride list"

definition timeseries :: VizPanel where
  "timeseries =
     \<lparr> pluginId = ''timeseries'', title = [], data = None, headerActions = [],
       options = [], customFieldConfig = [], fieldUnit = None, overrides = [] \<rparr>"

definition setTitle :: "string \<Rightarrow> VizPanel \<Rightarrow> VizPanel" where
  "setTitle t p = p\<lparr>title := t\<rparr>"

definition setData :: "SceneQueryRunner \<Rightarrow> VizPanel \<Rightarrow> VizPanel" where
  "setData d p = p\<lparr>data := Some d\<rparr>"

definition setHeaderActions :: "SceneBaseliner list \<Rightarrow> VizPanel \<Rightarrow> VizPanel" where
  "setHeaderActions acts p = p\<lparr>headerActions := acts\<rparr>"

definition setOption :: "string \<Rightarrow> cfg \<Rightarrow> VizPanel \<Rightarrow> VizPanel" where
  "setOption k v p = p\<lparr>options := AList.update k v (options p)\<rparr>"

definition setCustomFieldConfig :: "string \<Rightarrow> cfg \<Rightarrow> VizPanel \<Rightarrow> VizPanel" where
  "setCustomFieldConfig k v p = p\<lparr>customFieldConfig := AList.update k v (customFieldConfig p)\<rparr>"

definition setUnit :: "string \<Rightarrow> VizPanel \<Rightarrow> VizPanel" where
  "setUnit u p = p\<lparr>fieldUnit := Some u\<rparr>"

definition setOverrides :: "FieldOverride list \<Rightarrow> VizPanel \<Rightarrow> VizPanel" where
  "setOverrides os p = p\<lparr>overrides := os\<rparr>"

text \<open>
  A chain of builder calls \<^verbatim>\<open>b.f1(..).f2(..)...build()\<close>: the setters applied from left to
  right to the builder's state.
\<close>

definition build :: "VizPanel \<Rightarrow> (VizPanel \<Rightarrow> VizPanel) list \<Rightarrow> VizPanel" where
  "build b setters = foldl (\<lambda>p f. f p) b setters"

definition createForecastPanel :: "string \<Rightarrow> string \<Rightarrow> VizPanel" where
  "createForecastPanel title' query =
    (let baseliner = \<lparr> interval = Num 0.95, discoverSeasonalities = True, pinned = False \<rparr>;
         queryRunner =
           \<lparr> datasource = \<lparr>uid = ''prometheus''\<rparr>,
             queries = [\<lparr> refId = ''A'', expr = query, query_interval = ''1m'',
                          format = Some ''time_series'', legendFormat = None \<rparr>] \<rparr>;
         panel = build timeseries
           [ setTitle title',
             setData queryRunner,
             setHeaderActions [baseliner],
             setOption ''legend''
               (CfgObj [(''displayMode'', CfgEnum LegendDisplayMode_Table),
                        (''placement'', CfgStr ''right'')]),
             setOption ''tooltip''
               (CfgObj [(''mode'', CfgEnum TooltipDisplayMode_Multi),
                        (''sort'', CfgEnum SortOrder_Descending)]),
             setCustomFieldConfig ''drawStyle'' (CfgEnum GraphDrawStyle_Line),
             setCustomFieldConfig ''lineInterpolation'' (CfgEnum LineInterpolation_Smooth),
             setCustomFieldConfig ''lineWidth'' (CfgNum (Num 2)),
             setCustomFieldConfig ''fillOpacity'' (CfgNum (Num 10)),
             setCustomFieldConfig ''pointSize'' (CfgNum (Num 4)),
             setCustomFieldConfig ''spanNulls'' (CfgBool True) ]
     in panel)"

definition createAnomalyDetectionPanel :: "string \<Rightarrow> string \<Rightarrow> VizPanel" where
  "createAnomalyDetectionPanel title' query =
    (let baseliner = \<lparr> interval = Num 0.99, discoverSeasonalities = True, pinned = False \<rparr>;
         queryRunner =
           \<lparr> datasource = \<lparr>uid = ''prometheus''\<rparr>,
             queries = [\<lparr> refId = ''A'', expr = query, query_interval = ''30s'',
                          format = Some ''time_series'', legendFormat = None \<rparr>] \<rparr>
     in build timeseries
           [ setTitle title',
             setData queryRunner,
             setHeaderActions [baseliner],
             setOption ''legend''
               (CfgObj [(''displayMode'', CfgEnum LegendDisplayMode_Table),
                        (''placement'', CfgStr ''bottom'')]),
             setCustomFieldConfig ''drawStyle'' (CfgEnum GraphDrawStyle_Line),
             setCustomFieldConfig ''lineWidth'' (CfgNum (Num 1)),
             setCustomFieldConfig ''fillOpacity'' (CfgNum (Num 20)),
             setUnit ''short'' ])"

definition createComparativeForecastPanel :: VizPanel where
  "createComparativeForecastPanel =
    (let baseliner = \<lparr> interval = Num 0.90, discoverSeasonalities = True, pinned = False \<rparr>;
         queryRunner =
           \<lparr> datasource = \<lparr>uid = ''prometheus''\<rparr>,
             queries = [\<lparr> refId = ''A'', expr = ''rate(http_requests_total[5m])'',
                          query_interval = ''1m'', format = None,
                          legendFormat = Some ''HTTP Requests/sec'' \<rparr>,
                        \<lparr> refId = ''B'', expr = ''rate(cpu_usage_total[5m])'',
                          query_interval = ''1m'', format = None,
                          legendFormat = Some ''CPU Usage'' \<rparr>] \<rparr>
     in build timeseries
           [ setTitle ''Multi-Metric Forecast Comparison'',
             setData queryRunner,
             setHeaderActions [baseliner],
             setOption ''legend''
               (CfgObj [(''displayMode'', CfgEnum LegendDisplayMode_Table),
                        (''placement'', CfgStr ''right''),
                        (''calcs'', CfgArr [CfgStr ''lastNotNull'', CfgStr ''mean'',
                                            CfgStr ''max''])]),
             setOption ''tooltip''
               (CfgObj [(''mode'', CfgEnum TooltipDisplayMode_Multi),
                        (''sort'', CfgEnum SortOrder_Descending)]),
             setCustomFieldConfig ''drawStyle'' (CfgEnum GraphDrawStyle_Line),
             setCustomFieldConfig ''lineWidth'' (CfgNum (Num 2)),
             setOverrides
               [ \<lparr> matchFieldsWithName = ''HTTP Requests/sec'',
                   overrideColor = CfgObj [(''mode'', CfgStr ''fixed''),
                                           (''fixedColor'', CfgStr ''blue'')] \<rparr>,
                 \<lparr> matchFieldsWithName = ''CPU Usage'',
                   overrideColor = CfgObj [(''mode'', CfgStr ''fixed''),
                                           (''fixedColor'', CfgStr ''red'')] \<rparr> ] ])"

text \<open>
  \<^verbatim>\<open>MLForecastUtils.createLongTermForecastPanel(title, query, forecastHours = 24)\<close>. An omitted
  \<^verbatim>\<open>forecastHours\<close> is \<open>None\<close>. The title is the template literal
  \<^verbatim>\<open>`${title} (${forecastHours}h forecast)`\<close>; the language's conversion of a number to a
  string is not part of the repository and is the parameter \<open>numberToString\<close>.
\<close>

definition createLongTermForecastPanel ::
  "(jsnumber \<Rightarrow> string) \<Rightarrow> string \<Rightarrow> string \<Rightarrow> jsnumber option \<Rightarrow> VizPanel" where
  "createLongTermForecastPanel numberToString title' query forecastHours_arg =
    (let forecastHours = (case forecastHours_arg of None \<Rightarrow> Num 24 | Some h \<Rightarrow> h);
         baseliner = \<lparr> interval = Num 0.80, discoverSeasonalities = True, pinned = True \<rparr>;
         queryRunner =
           \<lparr> datasource = \<lparr>uid = ''prometheus''\<rparr>,
             queries = [\<lparr> refId = ''A'', expr = query, query_interval = ''5m'',
                          format = Some ''time_series'', legendFormat = None \<rparr>] \<rparr>
     in build timeseries
           [ setTitle (title' @ '' ('' @ numberToString forecastHours @ ''h forecast)''),
             setData queryRunner,
             setHeaderActions [baseliner],
             setOption ''legend''
               (CfgObj [(''displayMode'', CfgEnum LegendDisplayMode_Table),
                        (''placement'', CfgStr ''right'')]),
             setCustomFieldConfig ''drawStyle'' (CfgEnum GraphDrawStyle_Line),
             setCustomFieldConfig ''lineWidth'' (CfgNum (Num 2)),
             setCustomFieldConfig ''fillOpacity'' (CfgNum (Num 15)) ])"

section \<open>The dashboard and the application\<close>

text \<open>
  The constructors of the framework read two things that are no argument of theirs. The
  constructor of a time range evaluates the relative bounds it is given against the clock and
  stores the absolute range next to them; every constructor of a scene object stores a key
  drawn from the framework's key generator in the object it builds. What a call finds there
  is the world it runs in: the reading of the clock, in milliseconds, and the keys that the
  generator hands out during the call, in the order of the constructions.
\<close>

record World =
  clock :: int
  generated_keys :: "string list"

text \<open>
  A time range: the relative bounds given by the file, and the absolute bounds evaluated at
  construction (\<^verbatim>\<open>value.from\<close>, \<^verbatim>\<open>value.to\<close>, in milliseconds). For the one range the
  file builds, \<^verbatim>\<open>now\<close> is the reading of the clock and \<^verbatim>\<open>now-24h\<close> is 24 hours
  (86400000 ms) before it.
\<close>

record SceneTimeRange =
  time_from :: string
  time_to :: string
  value_from :: int
  value_to :: int

record QueryVariable =
  name :: string
  label :: string
  variable_datasource :: DataSourceRef
  variable_query :: string
  variable_value :: string
  includeAll :: bool
  allValue :: string

datatype SceneControl =
    SceneTimePicker
  | SceneRefreshPicker (intervals: "string list") (refresh: string)

text \<open>A flex layout with a direction and children, or a flex item holding a panel.\<close>

datatype SceneLayout =
    SceneFlexLayout (direction: string) (children: "SceneLayout list")
  | SceneFlexItem (width: string) (height: jsnumber) (item_body: VizPanel)

text \<open>
  The scene: the state handed to \<^verbatim>\<open>new EmbeddedScene\<close>, and the keys generated for the objects
  built on the way (the scene, its time range, variables, controls, layouts, items, panels,
  query runners and baseliners).
\<close>

record EmbeddedScene =
  timeRange :: SceneTimeRange
  variables :: "QueryVariable list"
  controls :: "SceneControl list"
  body :: SceneLayout
  object_keys :: "string list"

definition createMLDashboard :: "World \<Rightarrow> EmbeddedScene" where
  "createMLDashboard w =
    (let timeRange' =
           \<lparr> time_from = ''now-24h'', time_to = ''now'',
             value_from = clock w - 86400000, value_to = clock w \<rparr>;
         variables' =
           [ \<lparr> name = ''instance'', label = ''Instance'',
               variable_datasource = \<lparr>uid = ''prometheus''\<rparr>,
               variable_query = ''label_values(up, instance)'',
               variable_value = ''All'', includeAll = True, allValue = ''.*'' \<rparr>,
             \<lparr> name = ''job'', label = ''Job'',
               variable_datasource = \<lparr>uid = ''prometheus''\<rparr>,
               variable_query = ''label_values(up, job)'',
               variable_value = ''All'', includeAll = True, allValue = ''.*'' \<rparr> ];
         scene =
           \<lparr> timeRange = timeRange',
             variables = variables',
             controls =
               [ SceneTimePicker,
                 SceneRefreshPicker
                   [''5s'', ''10s'', ''30s'', ''1m'', ''5m'', ''15m'', ''30m'', ''1h''] ''30s'' ],
             body = SceneFlexLayout ''column''
               [ SceneFlexLayout ''row''
                   [ SceneFlexItem ''50%'' (Num 400)
                       (createForecastPanel ''CPU Usage Forecast''
                          ''avg(rate(cpu_usage_seconds_total{instance=~\"$instance\", job=~\"$job\"}[5m])) * 100''),
                     SceneFlexItem ''50%'' (Num 400)
                       (createForecastPanel ''Memory Usage Forecast''
                          ''avg(memory_usage_bytes{instance=~\"$instance\", job=~\"$job\"}) / 1024 / 1024 / 1024'') ],
                 SceneFlexLayout ''row''
                   [ SceneFlexItem ''100%'' (Num 400)
                       (createAnomalyDetectionPanel ''Network Traffic Anomaly Detection''
                          ''sum(rate(network_bytes_total{instance=~\"$instance\", job=~\"$job\"}[5m]))'') ],
                 SceneFlexLayout ''row''
                   [ SceneFlexItem ''100%'' (Num 400) createComparativeForecastPanel ] ],
             object_keys = generated_keys w \<rparr>
     in scene)"

text \<open>
  A page of the application. \<^verbatim>\<open>getScene\<close> is the closure \<^verbatim>\<open>() => createMLDashboard()\<close>; the
  framework calls it later, in the world of that moment.
\<close>

record SceneAppPage =
  page_title :: string
  url :: string
  subTitle :: string
  routePath :: string
  getScene :: "World \<Rightarrow> EmbeddedScene"

text \<open>The application: its pages, and the keys generated for the application and its pages.\<close>

record SceneApp =
  pages :: "SceneAppPage list"
  app_object_keys :: "string list"

definition createMLForecastApp :: "World \<Rightarrow> SceneApp" where
  "createMLForecastApp w =
    (let app =
       \<lparr> pages =
           [ \<lparr> page_title = ''ML Forecasting Dashboard'',
               url = [],
               subTitle = ''Predictive analytics with Grafana Scenes ML'',
               routePath = ''/ml-forecast'',
               getScene = (\<lambda>w'. createMLDashboard w') \<rparr> ],
         app_object_keys = generated_keys w \<rparr>
     in app)"

section \<open>The baseline engine behind the control\<close>

text \<open>
  The engine that the baseliner control drives (band projection, anomaly flagging,
  recalculation policy) is the add-on library wrapped by the file; no line of it is in the
  repository. The definitions of this section follow sections 3 to 5 of the specification.
  Values and bounds are reals.
\<close>

type_synonym Series = "(int \<times> real) list"

record BandPoint =
  center :: real
  lowerBound :: real
  upperBound :: real

type_synonym ConfidenceBand = "(int \<times> BandPoint) list"

text \<open>
  Modelled from the spec: the fitted model (section 3, BaselineModel), absent from the
  repository: a trend component, the seasonal components of the retained periods, and the
  residual variance. Each component gives its contribution at a timestamp.
\<close>

record BaselineModel =
  trend :: "int \<Rightarrow> real"
  seasonal :: "(int \<Rightarrow> real) list"
  residualVariance :: real

text \<open>
  Modelled from the spec: the quantile function of the assumed residual distribution
  (section 4.3), absent from the repository. The distribution is not fixed by the spec, so
  \<open>z\<close> is a parameter of the projection; \<open>quantile_of F z\<close> says that \<open>z\<close> is the quantile
  function of the distribution function \<open>F\<close> on the confidence levels in (0,1).
\<close>

definition quantile_of :: "(real \<Rightarrow> real) \<Rightarrow> (real \<Rightarrow> real) \<Rightarrow> bool" where
  "quantile_of F z \<longleftrightarrow> (\<forall>p x. 0 < p \<and> p < 1 \<longrightarrow> (z p \<le> x \<longleftrightarrow> p \<le> F x))"

text \<open>
  Modelled from the spec: band projection (section 4.3), absent from the repository. The
  center is trend plus seasonal components; the half-width is
  \<open>z(confidenceLevel) \<times> sqrt(residual variance)\<close>.
\<close>

definition bandAt :: "(real \<Rightarrow> real) \<Rightarrow> BaselineModel \<Rightarrow> real \<Rightarrow> int \<Rightarrow> BandPoint" where
  "bandAt z m confidenceLevel t =
     (let c = trend m t + sum_list (map (\<lambda>s. s t) (seasonal m));
          halfWidth = z confidenceLevel * sqrt (residualVariance m)
      in \<lparr> center = c, lowerBound = c - halfWidth, upperBound = c + halfWidth \<rparr>)"

definition projectBand ::
  "(real \<Rightarrow> real) \<Rightarrow> BaselineModel \<Rightarrow> real \<Rightarrow> int list \<Rightarrow> ConfidenceBand" where
  "projectBand z m confidenceLevel ts = map (\<lambda>t. (t, bandAt z m confidenceLevel t)) ts"

definition bandWidth :: "BandPoint \<Rightarrow> real" where
  "bandWidth b = upperBound b - lowerBound b"

text \<open>
  Modelled from the spec: anomaly flagging (section 4.4), absent from the repository. The band
  is aligned to the series by timestamp; a point is anomalous iff its value is strictly
  outside \<open>[lowerBound, upperBound]\<close>, and a point with no aligned band value is not flagged.
\<close>

definition flagPoint :: "ConfidenceBand \<Rightarrow> int \<times> real \<Rightarrow> bool" where
  "flagPoint band pt =
     (case map_of band (fst pt) of
        None \<Rightarrow> False
      | Some b \<Rightarrow> snd pt < lowerBound b \<or> upperBound b < snd pt)"

definition flagAnomalies :: "ConfidenceBand \<Rightarrow> Series \<Rightarrow> bool list" where
  "flagAnomalies band series = map (flagPoint band) series"

text \<open>
  Modelled from the spec: the recalculation policy (section 4.5 with the publication and
  cancellation rules of section 5), absent from the repository. The engine holds its
  recalculation state, the current inputs (series and Config, the Config being the state of
  the baseliner control), the band last published for display, and the inputs of the single
  pending recompute.
\<close>

datatype RecalcState = Stale | Computing | Fresh | Pinned

record Engine =
  recalc :: RecalcState
  input_series :: Series
  config :: SceneBaseliner
  published_band :: "ConfidenceBand option"
  pending :: "(Series \<times> SceneBaseliner) option"

datatype Event =
    ComputeStart
  | ComputeSuccess ConfidenceBand
  | ComputeFailure
  | SeriesChanged Series
  | ConfigChanged SceneBaseliner
  | Pin
  | Unpin

text \<open>The inputs a change made while computing is merged into: the pending ones, if any.\<close>

definition latest_inputs :: "Engine \<Rightarrow> Series \<times> SceneBaseliner" where
  "latest_inputs e = (case pending e of None \<Rightarrow> (input_series e, config e) | Some i \<Rightarrow> i)"

text \<open>The engine takes up the pending inputs, if any; nothing is pending afterwards.\<close>

definition take_pending :: "Engine \<Rightarrow> Engine" where
  "take_pending e =
     (case pending e of
        None \<Rightarrow> e
      | Some (s, c) \<Rightarrow> e\<lparr>input_series := s, config := c, pending := None\<rparr>)"

text \<open>
  Modelled from the spec: one transition of the recalculation state machine, absent from the
  repository.
  \<^item> \<open>stale \<rightarrow> computing\<close> on compute start;
  \<^item> \<open>computing \<rightarrow> fresh\<close> on success, the band being replaced as a whole; a result for
    inputs superseded by a coalesced change is discarded on arrival and the engine is stale
    for the pending inputs;
  \<^item> \<open>computing \<rightarrow> stale\<close> on failure, the last published band retained;
  \<^item> \<open>fresh \<rightarrow> stale\<close> when the series or the unpinned Config changes;
  \<^item> while computing, a change is coalesced into the single pending input, last write wins;
  \<^item> \<open>fresh \<rightarrow> pinned\<close> on pin, \<open>pinned \<rightarrow> stale\<close> on unpin; a pin while computing wins and
    the result in flight is discarded when it arrives;
  \<^item> while pinned, the band is frozen against changes of the inputs;
  \<^item> a change of the Config does not toggle the pin (that is \<open>Pin\<close> and \<open>Unpin\<close>), and has
    passed the validation of the confidence level (section 7);
  \<^item> an event for which the spec lists no transition in the current state leaves the engine
    as it is.
\<close>

fun step :: "Engine \<Rightarrow> Event \<Rightarrow> Engine" where
  "step e ComputeStart =
     (if recalc e = Stale then e\<lparr>recalc := Computing\<rparr> else e)"
| "step e (ComputeSuccess b) =
     (if recalc e = Computing then
        (case pending e of
           None \<Rightarrow> e\<lparr>recalc := Fresh, published_band := Some b\<rparr>
         | Some i \<Rightarrow> take_pending (e\<lparr>recalc := Stale\<rparr>))
      else e)"
| "step e ComputeFailure =
     (if recalc e = Computing then take_pending (e\<lparr>recalc := Stale\<rparr>) else e)"
| "step e (SeriesChanged s) =
     (case recalc e of
        Stale \<Rightarrow> e\<lparr>input_series := s\<rparr>
      | Computing \<Rightarrow> e\<lparr>pending := Some (s, snd (latest_inputs e))\<rparr>
      | Fresh \<Rightarrow> e\<lparr>recalc := Stale, input_series := s\<rparr>
      | Pinned \<Rightarrow> e\<lparr>input_series := s\<rparr>)"
| "step e (ConfigChanged c) =
     (let c' = c\<lparr>pinned := pinned (config e)\<rparr> in
      case recalc e of
        Stale \<Rightarrow> e\<lparr>config := c'\<rparr>
      | Computing \<Rightarrow> e\<lparr>pending := Some (fst (latest_inputs e), c')\<rparr>
      | Fresh \<Rightarrow> e\<lparr>recalc := Stale, config := c'\<rparr>
      | Pinned \<Rightarrow> e\<lparr>config := c'\<rparr>)"
| "step e Pin =
     (case recalc e of
        Fresh \<Rightarrow> e\<lparr>recalc := Pinned, config := (config e)\<lparr>pinned := True\<rparr>\<rparr>
      | Computing \<Rightarrow>
          (take_pending e)\<lparr>recalc := Pinned, config := (config (take_pending e))\<lparr>pinned := True\<rparr>\<rparr>
      | _ \<Rightarrow> e)"
| "step e Unpin =
     (if recalc e = Pinned
      then e\<lparr>recalc := Stale, config := (config e)\<lparr>pinned := False\<rparr>\<rparr>
      else e)"

text \<open>The engine after a sequence of events, oldest first.\<close>

definition run :: "Engine \<Rightarrow> Event list \<Rightarrow> Engine" where
  "run e evs = foldl step e evs"

text \<open>
  A well-formed engine. The Config's \<open>pinned\<close> flag and the recalculation state say the same:
  the flag is set exactly in the state \<open>pinned\<close>. Inputs are pending only while computing,
  and a pending Config has the flag of the current one.
\<close>

definition engine_inv :: "Engine \<Rightarrow> bool" where
  "engine_inv e \<longleftrightarrow>
     (pinned (config e) \<longleftrightarrow> recalc e = Pinned) \<and>
     (case pending e of
        None \<Rightarrow> True
      | Some i \<Rightarrow> recalc e = Computing \<and> pinned (snd i) = pinned (config e))"

text \<open>
  Modelled from the spec: the engine created for a control, absent from the repository.
  Nothing is published and nothing is pending. A Config created with \<open>pinned = true\<close> is
  frozen from the start (section 3: \<open>pinned=true\<close> freezes the model until explicitly
  unpinned), so its engine starts pinned; any other starts stale.
\<close>

definition newEngine :: "SceneBaseliner \<Rightarrow> Series \<Rightarrow> Engine" where
  "newEngine c s =
     \<lparr> recalc = (if pinned c then Pinned else Stale), input_series = s, config = c,
       published_band = None, pending = None \<rparr>"

section \<open>Properties of createAdvancedBaseliner\<close>

text \<open>
  C1, as the code has it. \<^verbatim>\<open>createAdvancedBaseliner\<close> has no validation and no error path: it
  returns a baseliner for every argument. For an interval outside the open interval (0,1)
  the baseliner carries that very interval, unless the interval is 0 or NaN, which the
  falsy-or fallback replaces by 0.95.
\<close>

theorem createAdvancedBaseliner_no_validation:
  "\<not> confidenceLevel_valid v \<Longrightarrow>
   interval (createAdvancedBaseliner (Some (opts\<lparr>opt_interval := Some v\<rparr>))) =
     (if v = Num 0 \<or> v = NaN then Num 0.95 else v)"
  by (cases v) (simp_all add: createAdvancedBaseliner_def)

theorem createAdvancedBaseliner_no_validation_witness:
  "\<not> confidenceLevel_valid (Num (-0.2)) \<and>
   interval (createAdvancedBaseliner
     (Some \<lparr>opt_interval = Some (Num (-0.2)), customSeasonalities = None,
            anomalyThreshold = None\<rparr>)) = Num (-0.2)"
  using createAdvancedBaseliner_no_validation
    [of "Num (-0.2)" "\<lparr>opt_interval = None, customSeasonalities = None, anomalyThreshold = None\<rparr>"]
  by simp

text \<open>
  C1, as the spec states it, fails: the interval 1.5 lies outside (0,1), and the call returns
  a baseliner that carries 1.5.
\<close>

theorem createAdvancedBaseliner_accepts_invalid:
  "\<not> confidenceLevel_valid (Num 1.5) \<and>
   createAdvancedBaseliner
     (Some \<lparr>opt_interval = Some (Num 1.5), customSeasonalities = None,
            anomalyThreshold = None\<rparr>)
   = \<lparr>interval = Num 1.5, discoverSeasonalities = True, pinned = False\<rparr>"
  by (simp add: createAdvancedBaseliner_def)

text \<open>
  C10. With \<^verbatim>\<open>options\<close> omitted, \<^verbatim>\<open>interval\<close> undefined, or \<^verbatim>\<open>interval\<close> equal to 0, the
  returned baseliner has the default interval 0.95: the falsy-or fallback replaces 0 by the
  default.
\<close>

theorem createAdvancedBaseliner_default:
  "interval (createAdvancedBaseliner None) = Num 0.95 \<and>
   interval (createAdvancedBaseliner (Some (opts\<lparr>opt_interval := None\<rparr>))) = Num 0.95 \<and>
   interval (createAdvancedBaseliner (Some (opts\<lparr>opt_interval := Some (Num 0)\<rparr>))) = Num 0.95"
  by (simp add: createAdvancedBaseliner_def)

section \<open>Properties of the panels\<close>

lemmas panel_defs =
  build_def timeseries_def setTitle_def setData_def setHeaderActions_def
  setOption_def setCustomFieldConfig_def setUnit_def setOverrides_def

lemmas create_defs =
  createForecastPanel_def createAnomalyDetectionPanel_def
  createComparativeForecastPanel_def createLongTermForecastPanel_def

text \<open>
  C2. Every baseliner configuration constructed by the four panel-creation functions
  (forecast, anomaly detection, comparative, long-term) has an interval strictly between 0
  and 1, whatever the title, the query and the forecast hours are.
\<close>

theorem panel_baseliner_interval_valid:
  "list_all (\<lambda>b. confidenceLevel_valid (interval b))
     (headerActions (createForecastPanel title' query)) \<and>
   list_all (\<lambda>b. confidenceLevel_valid (interval b))
     (headerActions (createAnomalyDetectionPanel title' query)) \<and>
   list_all (\<lambda>b. confidenceLevel_valid (interval b))
     (headerActions createComparativeForecastPanel) \<and>
   list_all (\<lambda>b. confidenceLevel_valid (interval b))
     (headerActions (createLongTermForecastPanel numberToString title' query forecastHours))"
  by (simp add: create_defs panel_defs Let_def)

text \<open>
  C3. Every panel built by the file (forecast, anomaly detection, comparative, long-term) has
  a baseliner, the forecasting and anomaly-detection overlay control, attached as its header
  action, whatever the title and the query are.
\<close>

theorem panel_has_baseliner_header_action:
  "headerActions (createForecastPanel title' query) =
     [\<lparr>interval = Num 0.95, discoverSeasonalities = True, pinned = False\<rparr>] \<and>
   headerActions (createAnomalyDetectionPanel title' query) =
     [\<lparr>interval = Num 0.99, discoverSeasonalities = True, pinned = False\<rparr>] \<and>
   headerActions createComparativeForecastPanel =
     [\<lparr>interval = Num 0.90, discoverSeasonalities = True, pinned = False\<rparr>] \<and>
   headerActions (createLongTermForecastPanel numberToString title' query forecastHours) =
     [\<lparr>interval = Num 0.80, discoverSeasonalities = True, pinned = True\<rparr>]"
  by (simp add: create_defs panel_defs Let_def)

text \<open>
  C9, as the code has it. Any two calls of \<^verbatim>\<open>createMLForecastApp\<close> agree on the whole
  configuration that the file supplies and differ at most in the keys generated for the
  objects they construct: every call yields a single page titled
  \<^verbatim>\<open>ML Forecasting Dashboard\<close> at route path \<^verbatim>\<open>/ml-forecast\<close> whose scene is built by
  \<^verbatim>\<open>createMLDashboard\<close>. Any two scenes built by it agree on the relative time range
  (\<^verbatim>\<open>now-24h\<close> to \<^verbatim>\<open>now\<close>), the variables, the controls, the layout, the four panels, their
  queries, options and baseliner settings, and differ at most in the generated keys and in
  the absolute time range evaluated from the clock.
\<close>

theorem createMLForecastApp_configuration:
  "createMLForecastApp w =
     \<lparr> pages =
         [ \<lparr> page_title = ''ML Forecasting Dashboard'', url = [],
             subTitle = ''Predictive analytics with Grafana Scenes ML'',
             routePath = ''/ml-forecast'', getScene = createMLDashboard \<rparr> ],
       app_object_keys = generated_keys w \<rparr> \<and>
   createMLDashboard w' =
     \<lparr> timeRange =
         \<lparr> time_from = ''now-24h'', time_to = ''now'',
           value_from = clock w' - 86400000, value_to = clock w' \<rparr>,
       variables =
         [ \<lparr> name = ''instance'', label = ''Instance'',
             variable_datasource = \<lparr>uid = ''prometheus''\<rparr>,
             variable_query = ''label_values(up, instance)'',
             variable_value = ''All'', includeAll = True, allValue = ''.*'' \<rparr>,
           \<lparr> name = ''job'', label = ''Job'',
             variable_datasource = \<lparr>uid = ''prometheus''\<rparr>,
             variable_query = ''label_values(up, job)'',
             variable_value = ''All'', includeAll = True, allValue = ''.*'' \<rparr> ],
       controls =
         [ SceneTimePicker,
           SceneRefreshPicker
             [''5s'', ''10s'', ''30s'', ''1m'', ''5m'', ''15m'', ''30m'', ''1h''] ''30s'' ],
       body = SceneFlexLayout ''column''
         [ SceneFlexLayout ''row''
             [ SceneFlexItem ''50%'' (Num 400)
                 \<lparr> pluginId = ''timeseries'', title = ''CPU Usage Forecast'',
                   data = Some
                     \<lparr> datasource = \<lparr>uid = ''prometheus''\<rparr>,
                       queries =
                         [ \<lparr> refId = ''A'',
                             expr = ''avg(rate(cpu_usage_seconds_total{instance=~\"$instance\", job=~\"$job\"}[5m])) * 100'',
                             query_interval = ''1m'', format = Some ''time_series'',
                             legendFormat = None \<rparr> ] \<rparr>,
                   headerActions =
                     [\<lparr>interval = Num 0.95, discoverSeasonalities = True, pinned = False\<rparr>],
                   options =
                     [ (''legend'', CfgObj [(''displayMode'', CfgEnum LegendDisplayMode_Table),
                                            (''placement'', CfgStr ''right'')]),
                       (''tooltip'', CfgObj [(''mode'', CfgEnum TooltipDisplayMode_Multi),
                                             (''sort'', CfgEnum SortOrder_Descending)]) ],
                   customFieldConfig =
                     [ (''drawStyle'', CfgEnum GraphDrawStyle_Line),
                       (''lineInterpolation'', CfgEnum LineInterpolation_Smooth),
                       (''lineWidth'', CfgNum (Num 2)),
                       (''fillOpacity'', CfgNum (Num 10)),
                       (''pointSize'', CfgNum (Num 4)),
                       (''spanNulls'', CfgBool True) ],
                   fieldUnit = None, overrides = [] \<rparr>,
               SceneFlexItem ''50%'' (Num 400)
                 \<lparr> pluginId = ''timeseries'', title = ''Memory Usage Forecast'',
                   data = Some
                     \<lparr> datasource = \<lparr>uid = ''prometheus''\<rparr>,
                       queries =
                         [ \<lparr> refId = ''A'',
                             expr = ''avg(memory_usage_bytes{instance=~\"$instance\", job=~\"$job\"}) / 1024 / 1024 / 1024'',
                             query_interval = ''1m'', format = Some ''time_series'',
                             legendFormat = None \<rparr> ] \<rparr>,
                   headerActions =
                     [\<lparr>interval = Num 0.95, discoverSeasonalities = True, pinned = False\<rparr>],
                   options =
                     [ (''legend'', CfgObj [(''displayMode'', CfgEnum LegendDisplayMode_Table),
                                            (''placement'', CfgStr ''right'')]),
                       (''tooltip'', CfgObj [(''mode'', CfgEnum TooltipDisplayMode_Multi),
                                             (''sort'', CfgEnum SortOrder_Descending)]) ],
                   customFieldConfig =
                     [ (''drawStyle'', CfgEnum GraphDrawStyle_Line),
                       (''lineInterpolation'', CfgEnum LineInterpolation_Smooth),
                       (''lineWidth'', CfgNum (Num 2)),
                       (''fillOpacity'', CfgNum (Num 10)),
                       (''pointSize'', CfgNum (Num 4)),
                       (''spanNulls'', CfgBool True) ],
                   fieldUnit = None, overrides = [] \<rparr> ],
           SceneFlexLayout ''row''
             [ SceneFlexItem ''100%'' (Num 400)
                 \<lparr> pluginId = ''timeseries'', title = ''Network Traffic Anomaly Detection'',
                   data = Some
                     \<lparr> datasource = \<lparr>uid = ''prometheus''\<rparr>,
                       queries =
                         [ \<lparr> refId = ''A'',
                             expr = ''sum(rate(network_bytes_total{instance=~\"$instance\", job=~\"$job\"}[5m]))'',
                             query_interval = ''30s'', format = Some ''time_series'',
                             legendFormat = None \<rparr> ] \<rparr>,
                   headerActions =
                     [\<lparr>interval = Num 0.99, discoverSeasonalities = True, pinned = False\<rparr>],
                   options =
                     [ (''legend'', CfgObj [(''displayMode'', CfgEnum LegendDisplayMode_Table),
                                            (''placement'', CfgStr ''bottom'')]) ],
                   customFieldConfig =
                     [ (''drawStyle'', CfgEnum GraphDrawStyle_Line),
                       (''lineWidth'', CfgNum (Num 1)),
                       (''fillOpacity'', CfgNum (Num 20)) ],
                   fieldUnit = Some ''short'', overrides = [] \<rparr> ],
           SceneFlexLayout ''row''
             [ SceneFlexItem ''100%'' (Num 400)
                 \<lparr> pluginId = ''timeseries'', title = ''Multi-Metric Forecast Comparison'',
                   data = Some
                     \<lparr> datasource = \<lparr>uid = ''prometheus''\<rparr>,
                       queries =
                         [ \<lparr> refId = ''A'', expr = ''rate(http_requests_total[5m])'',
                             query_interval = ''1m'', format = None,
                             legendFormat = Some ''HTTP Requests/sec'' \<rparr>,
                           \<lparr> refId = ''B'', expr = ''rate(cpu_usage_total[5m])'',
                             query_interval = ''1m'', format = None,
                             legendFormat = Some ''CPU Usage'' \<rparr> ] \<rparr>,
                   headerActions =
                     [\<lparr>interval = Num 0.90, discoverSeasonalities = True, pinned = False\<rparr>],
                   options =
                     [ (''legend'', CfgObj [(''displayMode'', CfgEnum LegendDisplayMode_Table),
                                            (''placement'', CfgStr ''right''),
                                            (''calcs'', CfgArr [CfgStr ''lastNotNull'',
                                                                CfgStr ''mean'', CfgStr ''max''])]),
                       (''tooltip'', CfgObj [(''mode'', CfgEnum TooltipDisplayMode_Multi),
                                             (''sort'', CfgEnum SortOrder_Descending)]) ],
                   customFieldConfig =
                     [ (''drawStyle'', CfgEnum GraphDrawStyle_Line),
                       (''lineWidth'', CfgNum (Num 2)) ],
                   fieldUnit = None,
                   overrides =
                     [ \<lparr> matchFieldsWithName = ''HTTP Requests/sec'',
                         overrideColor = CfgObj [(''mode'', CfgStr ''fixed''),
                                                 (''fixedColor'', CfgStr ''blue'')] \<rparr>,
                       \<lparr> matchFieldsWithName = ''CPU Usage'',
                         overrideColor = CfgObj [(''mode'', CfgStr ''fixed''),
                                                 (''fixedColor'', CfgStr ''red'')] \<rparr> ] \<rparr> ] ],
       object_keys = generated_keys w' \<rparr>"
proof (intro conjI)
  show "createMLForecastApp w =
     \<lparr> pages =
         [ \<lparr> page_title = ''ML Forecasting Dashboard'', url = [],
             subTitle = ''Predictive analytics with Grafana Scenes ML'',
             routePath = ''/ml-forecast'', getScene = createMLDashboard \<rparr> ],
       app_object_keys = generated_keys w \<rparr>"
    by (simp add: createMLForecastApp_def Let_def)
qed (simp add: createMLDashboard_def create_defs panel_defs Let_def)

text \<open>
  C9, as the claim states it, fails: two calls are not structurally identical and do depend
  on hidden state. Called in two worlds, one minute apart and with other keys generated, the
  applications differ (in their keys), and so do the time ranges of the scenes of their pages
  (in the absolute range).
\<close>

theorem createMLForecastApp_depends_on_world:
  "createMLForecastApp \<lparr>clock = 1700000000000, generated_keys = [''k1'', ''k2'']\<rparr>
     \<noteq> createMLForecastApp \<lparr>clock = 1700000060000, generated_keys = [''k3'', ''k4'']\<rparr> \<and>
   timeRange
     (getScene
        (hd (pages (createMLForecastApp
           \<lparr>clock = 1700000000000, generated_keys = [''k1'', ''k2'']\<rparr>)))
        \<lparr>clock = 1700000000000, generated_keys = [''k1'', ''k2'']\<rparr>)
     \<noteq> timeRange
     (getScene
        (hd (pages (createMLForecastApp
           \<lparr>clock = 1700000060000, generated_keys = [''k3'', ''k4'']\<rparr>)))
        \<lparr>clock = 1700000060000, generated_keys = [''k3'', ''k4'']\<rparr>)"
  by (simp add: createMLForecastApp_def createMLDashboard_def Let_def)

section \<open>Properties of the band and of the anomaly flags\<close>

text \<open>A quantile function is monotone on the confidence levels.\<close>

lemma quantile_of_mono:
  assumes q: "quantile_of F z" and c: "0 < c1" "c1 \<le> c2" "c2 < 1"
  shows "z c1 \<le> z c2"
proof -
  from c have r: "0 < c2 \<and> c2 < 1" "0 < c1 \<and> c1 < 1" by auto
  from q r(1) have "(z c2 \<le> z c2) = (c2 \<le> F (z c2))"
    unfolding quantile_of_def by blast
  then have "c1 \<le> F (z c2)" using c by simp
  moreover from q r(2) have "(z c1 \<le> z c2) = (c1 \<le> F (z c2))"
    unfolding quantile_of_def by blast
  ultimately show ?thesis by simp
qed

lemma bandWidth_bandAt:
  "bandWidth (bandAt z m c t) = 2 * (z c * sqrt (residualVariance m))"
  by (simp add: bandWidth_def bandAt_def Let_def)

text \<open>
  C4. For a fixed fitted model (with a residual variance that is not negative) and the
  quantile function of its residual distribution, for all confidence levels \<open>c1 < c2\<close> in
  (0,1) and every target timestamp, the width \<open>upperBound - lowerBound\<close> of the band
  projected under \<open>c2\<close> is at least the width under \<open>c1\<close>.
\<close>

theorem bandWidth_monotone:
  assumes "quantile_of F z" and "0 \<le> residualVariance m"
    and "0 < c1" and "c1 < c2" and "c2 < 1" and "i < length ts"
  shows "fst (projectBand z m c1 ts ! i) = ts ! i \<and>
         fst (projectBand z m c2 ts ! i) = ts ! i \<and>
         bandWidth (snd (projectBand z m c1 ts ! i))
           \<le> bandWidth (snd (projectBand z m c2 ts ! i))"
proof -
  have "z c1 \<le> z c2"
    using quantile_of_mono [of F z c1 c2] assms by simp
  moreover have "0 \<le> sqrt (residualVariance m)"
    using assms by simp
  ultimately have "z c1 * sqrt (residualVariance m) \<le> z c2 * sqrt (residualVariance m)"
    by (rule mult_right_mono)
  then show ?thesis
    using assms by (simp add: projectBand_def bandWidth_bandAt)
qed

text \<open>
  A flat model at 100 with residual variance 4 and uniformly distributed residuals: the band
  at the second timestamp is 3.6 wide under confidence 0.9 and 3.8 wide under 0.95.
\<close>

theorem bandWidth_monotone_witness:
  "quantile_of (\<lambda>x. min 1 (max 0 x)) (\<lambda>p. p) \<and>
   bandWidth (snd (projectBand (\<lambda>p. p)
       \<lparr>trend = (\<lambda>t. 100), seasonal = [], residualVariance = 4\<rparr> 0.9 [0, 3600] ! 1)) = 3.6 \<and>
   bandWidth (snd (projectBand (\<lambda>p. p)
       \<lparr>trend = (\<lambda>t. 100), seasonal = [], residualVariance = 4\<rparr> 0.95 [0, 3600] ! 1)) = 3.8"
proof -
  have q: "quantile_of (\<lambda>x. min 1 (max 0 x)) (\<lambda>p. p)"
    unfolding quantile_of_def by auto
  show ?thesis
    using q bandWidth_monotone [of "\<lambda>x. min 1 (max 0 x)" "\<lambda>p. p"
        "\<lparr>trend = (\<lambda>t. 100), seasonal = [], residualVariance = 4\<rparr>" "0.9" "0.95" 1 "[0, 3600]"]
    by (simp add: projectBand_def bandWidth_bandAt)
qed

text \<open>
  C5. For every point of the series: when the band has a value aligned to its timestamp, the
  point is flagged iff its value is strictly outside \<open>[lowerBound, upperBound]\<close>, so a value
  equal to the lower or the upper bound of the band is not flagged; when the band has no
  value at its timestamp, the point is not flagged.
\<close>

theorem flagAnomalies_strictly_outside:
  assumes "i < length series" and "series ! i = (t, v)"
  shows "case map_of cb t of
           None \<Rightarrow> \<not> flagAnomalies cb series ! i
         | Some b \<Rightarrow>
             (flagAnomalies cb series ! i \<longleftrightarrow> v \<notin> {lowerBound b .. upperBound b}) \<and>
             (lowerBound b \<le> upperBound b \<and> (v = lowerBound b \<or> v = upperBound b)
                \<longrightarrow> \<not> flagAnomalies cb series ! i)"
  using assms by (auto simp: flagAnomalies_def flagPoint_def split: option.splits)

text \<open>
  Hourly values around 100 with the band \<open>[98, 102]\<close> on the first four timestamps: only the
  value 500 is flagged; 102 and 98 lie on the bounds, and the last point has no band value.
\<close>

theorem flagAnomalies_strictly_outside_witness:
  "(2::nat) < length [(0, 100), (3600, 500), (7200, 102), (10800, 98), (14400, 7::real)] \<and>
   map_of [(0::int, \<lparr>center = 100, lowerBound = 98, upperBound = 102\<rparr>),
           (3600, \<lparr>center = 100, lowerBound = 98, upperBound = 102\<rparr>),
           (7200, \<lparr>center = 100, lowerBound = 98, upperBound = 102\<rparr>),
           (10800, \<lparr>center = 100, lowerBound = 98, upperBound = 102\<rparr>)] 7200
     = Some \<lparr>center = 100, lowerBound = 98, upperBound = 102\<rparr> \<and>
   \<not> flagAnomalies
       [(0, \<lparr>center = 100, lowerBound = 98, upperBound = 102\<rparr>),
        (3600, \<lparr>center = 100, lowerBound = 98, upperBound = 102\<rparr>),
        (7200, \<lparr>center = 100, lowerBound = 98, upperBound = 102\<rparr>),
        (10800, \<lparr>center = 100, lowerBound = 98, upperBound = 102\<rparr>)]
       [(0, 100), (3600, 500), (7200, 102), (10800, 98), (14400, 7)] ! 2"
  using flagAnomalies_strictly_outside [of 2
      "[(0, 100), (3600, 500), (7200, 102), (10800, 98), (14400, 7)]" 7200 102
      "[(0, \<lparr>center = 100, lowerBound = 98, upperBound = 102\<rparr>),
        (3600, \<lparr>center = 100, lowerBound = 98, upperBound = 102\<rparr>),
        (7200, \<lparr>center = 100, lowerBound = 98, upperBound = 102\<rparr>),
        (10800, \<lparr>center = 100, lowerBound = 98, upperBound = 102\<rparr>)]"]
  by simp

section \<open>Properties of the recalculation policy\<close>

lemma take_pending_keeps:
  "published_band (take_pending e) = published_band e"
  "recalc (take_pending e) = recalc e"
  by (auto simp: take_pending_def split: option.splits)

lemma step_preserves_inv:
  "engine_inv e \<Longrightarrow> engine_inv (step e ev)"
  by (cases ev; cases "recalc e"; cases "pending e")
     (auto simp: engine_inv_def take_pending_def latest_inputs_def Let_def
           split: option.splits prod.splits)

lemma run_preserves_inv:
  "engine_inv e \<Longrightarrow> engine_inv (run e evs)"
  unfolding run_def
  by (induction evs arbitrary: e) (simp_all add: step_preserves_inv)

lemma newEngine_inv:
  "engine_inv (newEngine c s)"
  by (simp add: engine_inv_def newEngine_def)



text \<open>
  Every engine that a control can reach is well formed, the engine of the long-term panel's
  baseliner (created with \<open>pinned = true\<close>) among them, which is pinned from the start.
\<close>

lemma reachable_engine_inv:
  "engine_inv (run (newEngine c s) evs)"
  by (simp add: run_preserves_inv newEngine_inv)

lemma longTerm_engine_pinned:
  "b \<in> set (headerActions (createLongTermForecastPanel numberToString title' query hours)) \<Longrightarrow>
   pinned (config (newEngine b s)) \<and> recalc (newEngine b s) = Pinned"
  by (simp add: create_defs panel_defs newEngine_def Let_def)



text \<open>
  C7. When the fit computation fails, the recalculation state goes from computing back to
  stale, and the band last published stays as it was: the failure neither discards nor
  changes it.
\<close>

theorem compute_failure_keeps_band:
  "recalc e = Computing \<Longrightarrow>
   recalc (step e ComputeFailure) = Stale \<and>
   published_band (step e ComputeFailure) = published_band e"
  by (simp add: take_pending_keeps)

text \<open>
  A band is published, the series changes, and the recomputation fails: the engine is stale
  and still shows the band published first.
\<close>

theorem compute_failure_keeps_band_witness:
  "recalc (run \<lparr>recalc = Stale, input_series = [(0, 100)],
            config = \<lparr>interval = Num 0.95, discoverSeasonalities = True, pinned = False\<rparr>,
            published_band = None, pending = None\<rparr>
        [ComputeStart, ComputeSuccess [(0, \<lparr>center = 100, lowerBound = 98, upperBound = 102\<rparr>)],
         SeriesChanged [(0, 100), (3600, 101)], ComputeStart]) = Computing \<and>
   recalc (run \<lparr>recalc = Stale, input_series = [(0, 100)],
            config = \<lparr>interval = Num 0.95, discoverSeasonalities = True, pinned = False\<rparr>,
            published_band = None, pending = None\<rparr>
        [ComputeStart, ComputeSuccess [(0, \<lparr>center = 100, lowerBound = 98, upperBound = 102\<rparr>)],
         SeriesChanged [(0, 100), (3600, 101)], ComputeStart, ComputeFailure]) = Stale \<and>
   published_band (run \<lparr>recalc = Stale, input_series = [(0, 100)],
            config = \<lparr>interval = Num 0.95, discoverSeasonalities = True, pinned = False\<rparr>,
            published_band = None, pending = None\<rparr>
        [ComputeStart, ComputeSuccess [(0, \<lparr>center = 100, lowerBound = 98, upperBound = 102\<rparr>)],
         SeriesChanged [(0, 100), (3600, 101)], ComputeStart, ComputeFailure])
     = Some [(0, \<lparr>center = 100, lowerBound = 98, upperBound = 102\<rparr>)]"
  using compute_failure_keeps_band
    [of "run \<lparr>recalc = Stale, input_series = [(0, 100)],
            config = \<lparr>interval = Num 0.95, discoverSeasonalities = True, pinned = False\<rparr>,
            published_band = None, pending = None\<rparr>
        [ComputeStart, ComputeSuccess [(0, \<lparr>center = 100, lowerBound = 98, upperBound = 102\<rparr>)],
         SeriesChanged [(0, 100), (3600, 101)], ComputeStart]"]
  by (simp add: run_def)

end
